theory Spec2Isabelle
  imports Complex_Main
begin

section \<open>Chronex: the data model of app.py\<close>

text \<open>
  Conventions of the embedding.
  \<^item> A \<^verbatim>\<open>date\<close> is its proleptic ordinal (an \<open>int\<close>), a \<^verbatim>\<open>datetime\<close> is a number of
    microseconds (an \<open>int\<close>): both have exactly this resolution in Python.
  \<^item> A Python \<^verbatim>\<open>float\<close> (amounts, the savings target, quotients) is an exact rational
    \<open>rat\<close>; rounding errors of binary floating point are not part of the model.
  \<^item> Strings are ASCII \<open>char\<close> lists.
  \<^item> A table is the list of its rows in insertion order; \<^verbatim>\<open>.first()\<close> is \<open>find\<close>.
  \<^item> A nullable column whose value can be NULL in a row the application wrote is an
    \<open>option\<close>.
\<close>

type_synonym date = int
type_synonym datetime = int

record User =
  id_User :: int
  username :: string
  email :: "string option"
  password_hash :: string
  total_focus_points :: int
  stars_earned :: int
  energy_bank_balance :: int
  last_energy_collection_time :: datetime
  focus_minutes_today :: int
  focus_tracking_date :: "date option"
  account_created_at :: datetime
  achievement_first_login :: bool
  achievement_first_focus :: bool
  achievement_first_task :: bool
  achievement_first_note :: bool
  achievement_email_added :: bool
  savings_goal_name :: "string option"
  savings_goal_target :: "rat option"

record Task =
  id_Task :: int
  user_id_Task :: int
  task_title :: string
  start_date :: date
  deadline_date :: "date option"
  priority_level :: string
  is_completed :: bool
  task_created_at :: datetime

record Note =
  id_Note :: int
  user_id_Note :: int
  note_title :: string
  note_content :: string
  last_modified_at :: datetime

record Transaction =
  id_Transaction :: int
  user_id_Transaction :: int
  transaction_type :: string
  transaction_description :: string
  transaction_amount :: rat
  transaction_category :: string
  transaction_date :: date

text \<open>
  The stored state: the four tables and the login session (the id Flask-Login keeps in
  the session cookie, \<open>None\<close> for an anonymous visitor).
\<close>

record state =
  user_rows :: "User list"
  task_rows :: "Task list"
  note_rows :: "Note list"
  transaction_rows :: "Transaction list"
  session :: "int option"

text \<open>
  What a request sees of the outside world: the two clocks, the credential-hashing
  library and the two parsers of the Python library that the handlers call on form
  fields (\<open>None\<close> where Python raises \<^verbatim>\<open>ValueError\<close>). The hashing functions take the
  password as a string; a handler that passes them a missing form field (\<^verbatim>\<open>None\<close>)
  raises, which the handlers below write as \<open>Inl AttributeError\<close>. A request that raises
  commits nothing.
\<close>

record env =
  utcnow :: datetime
  today :: date
  generate_password_hash :: "string \<Rightarrow> string"
  check_password_hash :: "string \<Rightarrow> string \<Rightarrow> bool"
  float_of :: "string \<Rightarrow> rat option"
  strptime_date :: "string \<Rightarrow> date option"

datatype error = ValueError | TypeError | AttributeError | IntegrityError

type_synonym form = "string \<rightharpoonup> string"
type_synonym json = "string \<rightharpoonup> int"
type_synonym flash = "string \<times> string"

record home_view =
  hv_active_tasks_count :: nat
  hv_focus_minutes_today :: int
  hv_daily_focus_goal :: int
  hv_progress_percentage :: int
  hv_priority_message :: string
  hv_total_notes_count :: nat
  hv_current_balance :: rat
  hv_unlocked_count :: nat
  hv_focus_points :: int

record budget_view =
  bv_recent_transactions :: "Transaction list"
  bv_total_income :: rat
  bv_total_expenses :: rat
  bv_current_balance :: rat
  bv_weekly_expenses :: rat
  bv_monthly_expenses :: rat
  bv_estimated_months_to_goal :: "rat option"

datatype response =
    Redirect string
  | Page string
  | Home home_view
  | Focus int int int
  | Budget budget_view
  | SessionJson int int int
  | PointsJson int

type_synonym result = "error + (state \<times> flash list \<times> response)"

section \<open>Python and SQL helpers\<close>

definition is_space :: "char \<Rightarrow> bool" where
  "is_space c = ((of_char c :: nat) \<in> {9, 10, 11, 12, 13, 28, 29, 30, 31, 32})"

definition strip :: "string \<Rightarrow> string" where
  "strip s = rev (dropWhile is_space (rev (dropWhile is_space s)))"

definition lower_char :: "char \<Rightarrow> char" where
  "lower_char c =
     (let n = (of_char c :: nat) in if 65 \<le> n \<and> n \<le> 90 then char_of (n + 32) else c)"

definition lower :: "string \<Rightarrow> string" where
  "lower s = map lower_char s"

definition form_get :: "form \<Rightarrow> string \<Rightarrow> string \<Rightarrow> string" where
  "form_get f k d = (case f k of None \<Rightarrow> d | Some v \<Rightarrow> v)"

text \<open>\<^verbatim>\<open>int(x)\<close> on a float truncates towards zero.\<close>

definition py_int :: "rat \<Rightarrow> int" where
  "py_int x = (if 0 \<le> x then \<lfloor>x\<rfloor> else \<lceil>x\<rceil>)"

text \<open>\<^verbatim>\<open>round(x, n)\<close>: to the nearest multiple of \<open>10 ^ -n\<close>, a tie to the even one.\<close>

definition round_half_even :: "rat \<Rightarrow> int" where
  "round_half_even y =
     (let f = \<lfloor>y\<rfloor>; d = y - of_int f
      in if d < 1 / 2 then f else if 1 / 2 < d then f + 1 else if even f then f else f + 1)"

definition py_round :: "rat \<Rightarrow> nat \<Rightarrow> rat" where
  "py_round x n = of_int (round_half_even (x * 10 ^ n)) / 10 ^ n"

text \<open>\<^verbatim>\<open>timedelta.total_seconds()\<close> of the difference of two datetimes.\<close>

definition total_seconds :: "datetime \<Rightarrow> datetime \<Rightarrow> rat" where
  "total_seconds t1 t0 = of_int (t1 - t0) / 1000000"

fun update_first :: "('a \<Rightarrow> bool) \<Rightarrow> ('a \<Rightarrow> 'a) \<Rightarrow> 'a list \<Rightarrow> 'a list" where
  "update_first P f [] = []"
| "update_first P f (x # xs) = (if P x then f x # xs else x # update_first P f xs)"

fun delete_first :: "('a \<Rightarrow> bool) \<Rightarrow> 'a list \<Rightarrow> 'a list" where
  "delete_first P [] = []"
| "delete_first P (x # xs) = (if P x then xs else x # delete_first P xs)"

text \<open>The next value of an autoincremented integer primary key.\<close>

definition next_id :: "int list \<Rightarrow> int" where
  "next_id ids = fold max ids 0 + 1"

text \<open>\<^verbatim>\<open>func.sum(...).scalar() or 0\<close>.\<close>

definition sum_amounts :: "Transaction list \<Rightarrow> rat" where
  "sum_amounts ts = sum_list (map transaction_amount ts)"

definition email_matches :: "string \<Rightarrow> User \<Rightarrow> bool" where
  "email_matches e u = (case email u of None \<Rightarrow> False | Some a \<Rightarrow> lower a = e)"

definition username_matches :: "string \<Rightarrow> User \<Rightarrow> bool" where
  "username_matches n u = (lower (username u) = n)"

definition get_user :: "state \<Rightarrow> int \<Rightarrow> User option" where
  "get_user st i = find (\<lambda>u. id_User u = i) (user_rows st)"

text \<open>\<^verbatim>\<open>database.session.commit()\<close> after the attributes of a loaded user changed.\<close>

definition commit_user :: "state \<Rightarrow> User \<Rightarrow> state" where
  "commit_user st u' =
     st\<lparr>user_rows := update_first (\<lambda>u. id_User u = id_User u') (\<lambda>_. u') (user_rows st)\<rparr>"

definition current_user :: "state \<Rightarrow> User option" where
  "current_user st = (case session st of None \<Rightarrow> None | Some i \<Rightarrow> get_user st i)"

text \<open>\<^verbatim>\<open>@login_required\<close>: an anonymous visitor is sent to the landing page.\<close>

definition login_required :: "state \<Rightarrow> (User \<Rightarrow> result) \<Rightarrow> result" where
  "login_required st h =
     (case current_user st of
        None \<Rightarrow> Inr (st, [], Redirect ''show_landing_page'')
      | Some u \<Rightarrow> h u)"

section \<open>Authentication routes\<close>

definition show_landing_page :: "state \<Rightarrow> result" where
  "show_landing_page st =
     (case current_user st of
        Some u \<Rightarrow> Inr (st, [], Redirect ''show_dashboard'')
      | None \<Rightarrow> Inr (st, [], Page ''landing.html''))"

definition handle_login :: "env \<Rightarrow> state \<Rightarrow> form \<Rightarrow> result" where
  "handle_login e st f =
     (let login_identifier = lower (strip (form_get f ''email'' ''''));
          password = f ''password'';
          found_user = find (\<lambda>u. email_matches login_identifier u
                                  \<or> username_matches login_identifier u) (user_rows st);
          invalid = Inr (st, [(''Invalid email/username or password'', ''error'')],
                         Redirect ''show_landing_page'')
      in case found_user of
           None \<Rightarrow> invalid
         | Some u \<Rightarrow>
             (case password of
                None \<Rightarrow> Inl AttributeError
              | Some p \<Rightarrow>
                  if check_password_hash e (password_hash u) p then
                    (let st1 = st\<lparr>session := Some (id_User u)\<rparr>
                     in if \<not> achievement_first_login u then
                          Inr (commit_user st1 (u\<lparr>achievement_first_login := True\<rparr>),
                               [(''Achievement unlocked: First Steps!'', ''success'')],
                               Redirect ''show_dashboard'')
                        else Inr (st1, [], Redirect ''show_dashboard''))
                  else invalid))"

definition new_user :: "env \<Rightarrow> int \<Rightarrow> string \<Rightarrow> string option \<Rightarrow> string \<Rightarrow> User" where
  "new_user e i n m h =
     \<lparr>id_User = i, username = n, email = m, password_hash = h,
      total_focus_points = 0, stars_earned = 0, energy_bank_balance = 0,
      last_energy_collection_time = utcnow e,
      focus_minutes_today = 0, focus_tracking_date = None,
      account_created_at = utcnow e,
      achievement_first_login = False, achievement_first_focus = False,
      achievement_first_task = False, achievement_first_note = False,
      achievement_email_added = True,
      savings_goal_name = None, savings_goal_target = None\<rparr>"

definition handle_registration :: "env \<Rightarrow> state \<Rightarrow> form \<Rightarrow> result" where
  "handle_registration e st f =
     (let username' = lower (strip (form_get f ''username'' ''''));
          email' = lower (strip (form_get f ''email'' ''''));
          password = f ''password'';
          confirm_password = f ''confirm_password''
      in if password \<noteq> confirm_password then
           Inr (st, [(''Passwords do not match'', ''error'')], Redirect ''show_landing_page'')
         else if find (username_matches username') (user_rows st) \<noteq> None then
           Inr (st, [(''Username already taken'', ''error'')], Redirect ''show_landing_page'')
         else if email' \<noteq> [] \<and> find (email_matches email') (user_rows st) \<noteq> None then
           Inr (st, [(''Email already registered'', ''error'')], Redirect ''show_landing_page'')
         else
           (case password of
              None \<Rightarrow> Inl AttributeError
            | Some p \<Rightarrow>
                (let u = (new_user e (next_id (map id_User (user_rows st))) username'
                            (if email' \<noteq> [] then Some email' else None)
                            (generate_password_hash e p))
                         \<lparr>achievement_email_added := (if email' \<noteq> [] then True else False)\<rparr>
                 in Inr (st\<lparr>user_rows := user_rows st @ [u]\<rparr>,
                         [(''Account created! Sign in with '' @ [CHR 0x22] @ username' @ [CHR 0x22], ''success'')],
                         Redirect ''show_landing_page''))))"

definition handle_forgot_password :: "state \<Rightarrow> result" where
  "handle_forgot_password st =
     Inr (st, [(''Password reset link sent to your email'', ''success'')],
          Redirect ''show_landing_page'')"

definition handle_logout :: "state \<Rightarrow> result" where
  "handle_logout st =
     login_required st (\<lambda>u. Inr (st\<lparr>session := None\<rparr>, [], Redirect ''show_landing_page''))"

section \<open>Dashboard\<close>

definition pending_task :: "Task list \<Rightarrow> int \<Rightarrow> string \<Rightarrow> Task option" where
  "pending_task ts i p =
     find (\<lambda>t. user_id_Task t = i \<and> \<not> is_completed t \<and> priority_level t = p) ts"

definition daily_focus_goal :: "Task list \<Rightarrow> int \<Rightarrow> int \<times> string" where
  "daily_focus_goal ts i =
     (if pending_task ts i ''high'' \<noteq> None then (30, ''High priority task - Focus 30 min'')
      else if pending_task ts i ''medium'' \<noteq> None then
        (15, ''Medium priority task - Focus 15 min'')
      else if pending_task ts i ''low'' \<noteq> None then (10, ''Low priority task - Focus 10 min'')
      else (0, ''No tasks today - You'' @ [CHR 0x27] @ ''re all caught up!''))"

definition progress_percentage :: "int \<Rightarrow> int \<Rightarrow> int" where
  "progress_percentage minutes goal =
     (if goal > 0 then min 100 (py_int ((of_int minutes / of_int goal) * 100)) else 100)"

definition total_income :: "state \<Rightarrow> int \<Rightarrow> rat" where
  "total_income st i =
     sum_amounts (filter (\<lambda>t. user_id_Transaction t = i \<and> transaction_type t = ''income'')
                    (transaction_rows st))"

definition total_expenses :: "state \<Rightarrow> int \<Rightarrow> rat" where
  "total_expenses st i =
     sum_amounts (filter (\<lambda>t. user_id_Transaction t = i \<and> transaction_type t = ''expense'')
                    (transaction_rows st))"

definition unlocked_achievements_count :: "User \<Rightarrow> nat" where
  "unlocked_achievements_count u =
     sum_list (map of_bool [achievement_first_login u, achievement_first_focus u,
       achievement_first_task u, achievement_first_note u, achievement_email_added u])"

text \<open>The daily reset that both readers of \<open>focus_minutes_today\<close> apply first.\<close>

definition reset_if_new_day :: "env \<Rightarrow> User \<Rightarrow> User" where
  "reset_if_new_day e u =
     (if focus_tracking_date u \<noteq> Some (today e)
      then u\<lparr>focus_minutes_today := 0, focus_tracking_date := Some (today e)\<rparr>
      else u)"

definition show_dashboard :: "env \<Rightarrow> state \<Rightarrow> result" where
  "show_dashboard e st =
     login_required st (\<lambda>u0.
       let u = reset_if_new_day e u0;
           st1 = (if focus_tracking_date u0 \<noteq> Some (today e) then commit_user st u else st);
           i = id_User u;
           (goal, message) = daily_focus_goal (task_rows st1) i
       in Inr (st1, [],
            Home \<lparr>hv_active_tasks_count =
                    length (filter (\<lambda>t. user_id_Task t = i \<and> \<not> is_completed t) (task_rows st1)),
                  hv_focus_minutes_today = focus_minutes_today u,
                  hv_daily_focus_goal = goal,
                  hv_progress_percentage = progress_percentage (focus_minutes_today u) goal,
                  hv_priority_message = message,
                  hv_total_notes_count =
                    length (filter (\<lambda>n. user_id_Note n = i) (note_rows st1)),
                  hv_current_balance = py_round (total_income st1 i - total_expenses st1 i) 2,
                  hv_unlocked_count = unlocked_achievements_count u,
                  hv_focus_points = total_focus_points u\<rparr>))"

section \<open>Task routes\<close>

definition show_tasks_page :: "state \<Rightarrow> result" where
  "show_tasks_page st = login_required st (\<lambda>u. Inr (st, [], Page ''timetable.html''))"

text \<open>
  \<^verbatim>\<open>datetime.strptime(s, '%Y-%m-%d').date() if s else d\<close>: a missing or empty field
  takes the default, a field that does not parse raises.
\<close>

definition parse_date_or :: "env \<Rightarrow> string option \<Rightarrow> 'a \<Rightarrow> (date \<Rightarrow> 'a) \<Rightarrow> error + 'a" where
  "parse_date_or e s d k =
     (case s of
        None \<Rightarrow> Inr d
      | Some x \<Rightarrow>
          if x = [] then Inr d
          else (case strptime_date e x of None \<Rightarrow> Inl ValueError | Some v \<Rightarrow> Inr (k v)))"

definition find_task :: "state \<Rightarrow> int option \<Rightarrow> int \<Rightarrow> Task option" where
  "find_task st task_id i =
     find (\<lambda>t. Some (id_Task t) = task_id \<and> user_id_Task t = i) (task_rows st)"

definition commit_task :: "state \<Rightarrow> int option \<Rightarrow> int \<Rightarrow> Task \<Rightarrow> state" where
  "commit_task st task_id i t' =
     st\<lparr>task_rows := update_first (\<lambda>t. Some (id_Task t) = task_id \<and> user_id_Task t = i)
                        (\<lambda>_. t') (task_rows st)\<rparr>"

definition handle_add_task :: "env \<Rightarrow> state \<Rightarrow> form \<Rightarrow> result" where
  "handle_add_task e st f =
     login_required st (\<lambda>u.
       let priority = form_get f ''priority'' ''medium'';
           redirect_destination = form_get f ''redirect'' ''timetable''
       in case parse_date_or e (f ''start_date'') (today e) (\<lambda>d. d) of
            Inl x \<Rightarrow> Inl x
          | Inr start \<Rightarrow>
         (case parse_date_or e (f ''deadline_date'') None Some of
            Inl x \<Rightarrow> Inl x
          | Inr deadline \<Rightarrow>
         (case f ''title'' of
            None \<Rightarrow> Inl IntegrityError
          | Some title \<Rightarrow>
              (let new_task = \<lparr>id_Task = next_id (map id_Task (task_rows st)),
                               user_id_Task = id_User u, task_title = title,
                               start_date = start, deadline_date = deadline,
                               priority_level = priority, is_completed = False,
                               task_created_at = utcnow e\<rparr>;
                   st1 = st\<lparr>task_rows := task_rows st @ [new_task]\<rparr>;
                   unlock = \<not> achievement_first_task u;
                   st2 = (if unlock then commit_user st1 (u\<lparr>achievement_first_task := True\<rparr>)
                          else st1)
               in Inr (st2,
                    (if unlock then [(''Achievement unlocked: Task Starter!'', ''success'')]
                     else []) @ [(''Task added!'', ''success'')],
                    Redirect (if redirect_destination = ''home'' then ''show_dashboard''
                              else ''show_tasks_page''))))))"

definition handle_update_task :: "env \<Rightarrow> state \<Rightarrow> int option \<Rightarrow> form \<Rightarrow> result" where
  "handle_update_task e st task_id f =
     login_required st (\<lambda>u.
       case find_task st task_id (id_User u) of
         None \<Rightarrow> Inr (st, [], Redirect ''show_tasks_page'')
       | Some found_task \<Rightarrow>
         (case parse_date_or e (f ''start_date'') (today e) (\<lambda>d. d) of
            Inl x \<Rightarrow> Inl x
          | Inr start \<Rightarrow>
         (case parse_date_or e (f ''deadline_date'') None Some of
            Inl x \<Rightarrow> Inl x
          | Inr deadline \<Rightarrow>
         (case f ''title'' of
            None \<Rightarrow> Inl IntegrityError
          | Some title \<Rightarrow>
              Inr (commit_task st task_id (id_User u)
                     (found_task\<lparr>task_title := title, start_date := start,
                        deadline_date := deadline,
                        priority_level := form_get f ''priority'' ''medium''\<rparr>),
                   [(''Task updated!'', ''success'')], Redirect ''show_tasks_page'')))))"

text \<open>\<^verbatim>\<open>{'high': 30, 'medium': 20, 'low': 10}.get(priority_level, 10)\<close>.\<close>

definition points_earned :: "string \<Rightarrow> int" where
  "points_earned p =
     (case map_of [(''high'', 30), (''medium'', 20), (''low'', 10)] p of
        Some n \<Rightarrow> n | None \<Rightarrow> 10)"

text \<open>\<^verbatim>\<open>f'+{points_earned} points earned!'\<close> for the three values the table can give.\<close>

definition points_message :: "int \<Rightarrow> string" where
  "points_message n =
     (if n = 30 then ''+30 points earned!'' else if n = 20 then ''+20 points earned!''
      else ''+10 points earned!'')"

definition handle_toggle_task :: "state \<Rightarrow> int option \<Rightarrow> result" where
  "handle_toggle_task st task_id =
     login_required st (\<lambda>u.
       case find_task st task_id (id_User u) of
         None \<Rightarrow> Inr (st, [], Redirect ''show_tasks_page'')
       | Some found_task \<Rightarrow>
           (let was_completed = is_completed found_task;
                t = found_task\<lparr>is_completed := \<not> is_completed found_task\<rparr>;
                st1 = commit_task st task_id (id_User u) t
            in if is_completed t \<and> \<not> was_completed then
                 Inr (commit_user st1
                        (u\<lparr>total_focus_points :=
                             total_focus_points u + points_earned (priority_level t)\<rparr>),
                      [(points_message (points_earned (priority_level t)), ''success'')],
                      Redirect ''show_tasks_page'')
               else Inr (st1, [], Redirect ''show_tasks_page'')))"

definition handle_delete_task :: "state \<Rightarrow> int option \<Rightarrow> result" where
  "handle_delete_task st task_id =
     login_required st (\<lambda>u.
       case find_task st task_id (id_User u) of
         None \<Rightarrow> Inr (st, [], Redirect ''show_tasks_page'')
       | Some found_task \<Rightarrow>
           Inr (st\<lparr>task_rows :=
                     delete_first (\<lambda>t. Some (id_Task t) = task_id \<and> user_id_Task t = id_User u)
                       (task_rows st)\<rparr>,
                [(''Task deleted'', ''success'')], Redirect ''show_tasks_page''))"

section \<open>Notes routes\<close>

definition show_notes_page :: "state \<Rightarrow> result" where
  "show_notes_page st = login_required st (\<lambda>u. Inr (st, [], Page ''mynotes.html''))"

definition find_note :: "state \<Rightarrow> int option \<Rightarrow> int \<Rightarrow> Note option" where
  "find_note st note_id i =
     find (\<lambda>n. Some (id_Note n) = note_id \<and> user_id_Note n = i) (note_rows st)"

definition handle_add_note :: "env \<Rightarrow> state \<Rightarrow> form \<Rightarrow> result" where
  "handle_add_note e st f =
     login_required st (\<lambda>u.
       let redirect_destination = form_get f ''redirect'' ''mynotes'';
           new_note = \<lparr>id_Note = next_id (map id_Note (note_rows st)),
                       user_id_Note = id_User u,
                       note_title = form_get f ''title'' '''',
                       note_content = form_get f ''content'' '''',
                       last_modified_at = utcnow e\<rparr>;
           st1 = st\<lparr>note_rows := note_rows st @ [new_note]\<rparr>;
           unlock = \<not> achievement_first_note u;
           st2 = (if unlock then commit_user st1 (u\<lparr>achievement_first_note := True\<rparr>)
                  else st1)
       in Inr (st2,
            (if unlock then [(''Achievement unlocked: Note Taker!'', ''success'')] else [])
              @ [(''Note saved!'', ''success'')],
            Redirect (if redirect_destination = ''home'' then ''show_dashboard''
                      else ''show_notes_page'')))"

definition handle_update_note :: "env \<Rightarrow> state \<Rightarrow> int option \<Rightarrow> form \<Rightarrow> result" where
  "handle_update_note e st note_id f =
     login_required st (\<lambda>u.
       case find_note st note_id (id_User u) of
         None \<Rightarrow> Inr (st, [], Redirect ''show_notes_page'')
       | Some found_note \<Rightarrow>
           (let n1 = found_note\<lparr>note_title := form_get f ''title'' '''',
                                 note_content := form_get f ''content'' ''''\<rparr>;
                n2 = (if n1 = found_note then n1 else n1\<lparr>last_modified_at := utcnow e\<rparr>)
            in Inr (st\<lparr>note_rows :=
                         update_first (\<lambda>n. Some (id_Note n) = note_id \<and> user_id_Note n = id_User u)
                           (\<lambda>_. n2) (note_rows st)\<rparr>,
                    [(''Note updated!'', ''success'')], Redirect ''show_notes_page'')))"

definition handle_delete_note :: "state \<Rightarrow> int option \<Rightarrow> result" where
  "handle_delete_note st note_id =
     login_required st (\<lambda>u.
       case find_note st note_id (id_User u) of
         None \<Rightarrow> Inr (st, [], Redirect ''show_notes_page'')
       | Some found_note \<Rightarrow>
           Inr (st\<lparr>note_rows :=
                     delete_first (\<lambda>n. Some (id_Note n) = note_id \<and> user_id_Note n = id_User u)
                       (note_rows st)\<rparr>,
                [(''Note deleted'', ''success'')], Redirect ''show_notes_page''))"

section \<open>Focus timer routes\<close>

definition energy_accumulated :: "env \<Rightarrow> User \<Rightarrow> int" where
  "energy_accumulated e u =
     py_int (total_seconds (utcnow e) (last_energy_collection_time u) / 5) * stars_earned u"

definition collect_energy :: "env \<Rightarrow> User \<Rightarrow> User" where
  "collect_energy e u =
     (if energy_accumulated e u > 0
      then u\<lparr>energy_bank_balance := energy_bank_balance u + energy_accumulated e u,
             last_energy_collection_time := utcnow e\<rparr>
      else u)"

definition show_focus_page :: "env \<Rightarrow> state \<Rightarrow> result" where
  "show_focus_page e st =
     login_required st (\<lambda>u0.
       let u = collect_energy e u0;
           st1 = (if energy_accumulated e u0 > 0 then commit_user st u else st)
       in Inr (st1, [],
               Focus (total_focus_points u) (stars_earned u) (energy_bank_balance u)))"

text \<open>
  The body of a JSON request is \<open>None\<close> when \<^verbatim>\<open>request.get_json()\<close> gives \<^verbatim>\<open>None\<close>, else
  the object it decodes to; its values are integers.
\<close>

definition session_complete :: "env \<Rightarrow> int \<Rightarrow> User \<Rightarrow> User" where
  "session_complete e completed_minutes u0 =
     (let u1 = u0\<lparr>stars_earned := stars_earned u0 + 1,
                  total_focus_points := total_focus_points u0 + 10,
                  last_energy_collection_time := utcnow e\<rparr>;
          u2 = reset_if_new_day e u1;
          u3 = u2\<lparr>focus_minutes_today := focus_minutes_today u2 + completed_minutes\<rparr>
      in if \<not> achievement_first_focus u3 then u3\<lparr>achievement_first_focus := True\<rparr> else u3)"

text \<open>
  \<^verbatim>\<open>request_data = request.get_json() or {}\<close>, then
  \<^verbatim>\<open>request_data.get('minutes', 1)\<close>.
\<close>

definition completed_minutes :: "json option \<Rightarrow> int" where
  "completed_minutes body =
     (let request_data = (case body of None \<Rightarrow> Map.empty | Some d \<Rightarrow> d)
      in case request_data ''minutes'' of None \<Rightarrow> 1 | Some m \<Rightarrow> m)"

definition handle_session_complete :: "env \<Rightarrow> state \<Rightarrow> json option \<Rightarrow> result" where
  "handle_session_complete e st body =
     login_required st (\<lambda>u0.
       let u = session_complete e (completed_minutes body) u0
       in Inr (commit_user st u, [],
               SessionJson (stars_earned u) (focus_minutes_today u) (total_focus_points u)))"

definition add_focus_points :: "int \<Rightarrow> User \<Rightarrow> User" where
  "add_focus_points points_to_add u0 =
     (let u1 = u0\<lparr>total_focus_points := total_focus_points u0 + points_to_add\<rparr>
      in if \<not> achievement_first_focus u1 \<and> points_to_add > 0
         then u1\<lparr>achievement_first_focus := True\<rparr> else u1)"

text \<open>\<^verbatim>\<open>request_data.get('points', 0)\<close>.\<close>

definition points_to_add :: "json \<Rightarrow> int" where
  "points_to_add request_data = (case request_data ''points'' of None \<Rightarrow> 0 | Some p \<Rightarrow> p)"

definition handle_add_focus_points :: "state \<Rightarrow> json option \<Rightarrow> result" where
  "handle_add_focus_points st body =
     login_required st (\<lambda>u0.
       case body of
         None \<Rightarrow> Inl AttributeError
       | Some request_data \<Rightarrow>
           (let u = add_focus_points (points_to_add request_data) u0
            in Inr (commit_user st u, [], PointsJson (total_focus_points u))))"

section \<open>Achievements route\<close>

definition show_achievements_page :: "state \<Rightarrow> result" where
  "show_achievements_page st =
     login_required st (\<lambda>u. Inr (st, [], Page ''achievements.html''))"

section \<open>Budget routes\<close>

text \<open>
  The guard \<^verbatim>\<open>if current_user.savings_goal_target and current_balance > 0\<close> tests the
  target for truth: \<^verbatim>\<open>None\<close> and \<^verbatim>\<open>0.0\<close> both fail it.
\<close>

definition estimated_months_to_goal :: "rat option \<Rightarrow> rat \<Rightarrow> rat \<Rightarrow> rat option" where
  "estimated_months_to_goal target income expenses =
     (let current_balance = income - expenses
      in case target of
           None \<Rightarrow> None
         | Some goal \<Rightarrow>
             if goal \<noteq> 0 \<and> current_balance > 0 then
               (let monthly_savings_rate = (income - expenses) / 12;
                    remaining_amount = goal - current_balance
                in if current_balance \<ge> goal then Some 0
                   else Some (max 0 (py_round (remaining_amount / max 1 monthly_savings_rate) 1)))
             else None)"

definition expenses_since :: "state \<Rightarrow> int \<Rightarrow> date \<Rightarrow> rat" where
  "expenses_since st i d =
     sum_amounts (filter (\<lambda>t. user_id_Transaction t = i \<and> transaction_type t = ''expense''
                              \<and> transaction_date t \<ge> d) (transaction_rows st))"

definition show_budget_page :: "env \<Rightarrow> state \<Rightarrow> result" where
  "show_budget_page e st =
     login_required st (\<lambda>u.
       let i = id_User u;
           income = total_income st i;
           expenses = total_expenses st i
       in Inr (st, [],
            Budget \<lparr>bv_recent_transactions =
                      sort_key (\<lambda>t. - transaction_date t)
                        (filter (\<lambda>t. user_id_Transaction t = i) (transaction_rows st)),
                    bv_total_income = py_round income 2,
                    bv_total_expenses = py_round expenses 2,
                    bv_current_balance = py_round (income - expenses) 2,
                    bv_weekly_expenses = py_round (expenses_since st i (today e - 7)) 2,
                    bv_monthly_expenses = py_round (expenses_since st i (today e - 30)) 2,
                    bv_estimated_months_to_goal =
                      estimated_months_to_goal (savings_goal_target u) income expenses\<rparr>))"

text \<open>\<^verbatim>\<open>float(request.form.get(k))\<close>: \<^verbatim>\<open>TypeError\<close> on a missing field.\<close>

definition form_float :: "env \<Rightarrow> form \<Rightarrow> string \<Rightarrow> error + rat" where
  "form_float e f k =
     (case f k of
        None \<Rightarrow> Inl TypeError
      | Some s \<Rightarrow> (case float_of e s of None \<Rightarrow> Inl ValueError | Some x \<Rightarrow> Inr x))"

definition handle_add_transaction :: "env \<Rightarrow> state \<Rightarrow> form \<Rightarrow> result" where
  "handle_add_transaction e st f =
     login_required st (\<lambda>u.
       case form_float e f ''amount'' of
         Inl x \<Rightarrow> Inl x
       | Inr amount \<Rightarrow>
           (case (f ''type'', f ''description'', f ''category'') of
              (Some ty, Some description, Some category) \<Rightarrow>
                Inr (st\<lparr>transaction_rows := transaction_rows st @
                          [\<lparr>id_Transaction = next_id (map id_Transaction (transaction_rows st)),
                            user_id_Transaction = id_User u,
                            transaction_type = ty,
                            transaction_description = description,
                            transaction_amount = amount,
                            transaction_category = category,
                            transaction_date = today e\<rparr>]\<rparr>,
                     [(''Transaction added!'', ''success'')], Redirect ''show_budget_page'')
            | _ \<Rightarrow> Inl IntegrityError))"

definition handle_set_goal :: "env \<Rightarrow> state \<Rightarrow> form \<Rightarrow> result" where
  "handle_set_goal e st f =
     login_required st (\<lambda>u.
       case form_float e f ''target'' of
         Inl x \<Rightarrow> Inl x
       | Inr target \<Rightarrow>
           Inr (commit_user st (u\<lparr>savings_goal_name := f ''name'',
                                   savings_goal_target := Some target\<rparr>),
                [(''Goal saved!'', ''success'')], Redirect ''show_budget_page''))"

section \<open>Settings routes\<close>

definition show_settings_page :: "state \<Rightarrow> result" where
  "show_settings_page st = login_required st (\<lambda>u. Inr (st, [], Page ''settings.html''))"

definition handle_update_profile :: "state \<Rightarrow> form \<Rightarrow> result" where
  "handle_update_profile st f =
     login_required st (\<lambda>u.
       let new_email = lower (strip (form_get f ''email'' ''''));
           updated = Inr (commit_user st (u\<lparr>email := Some new_email,
                                            achievement_email_added := True\<rparr>),
                          [(''Profile updated!'', ''success'')], Redirect ''show_settings_page'')
       in if new_email \<noteq> [] then
            (if new_email \<noteq> lower (case email u of None \<Rightarrow> [] | Some a \<Rightarrow> a) then
               (if find (email_matches new_email) (user_rows st) \<noteq> None then
                  Inr (st, [(''Email already in use'', ''error'')],
                       Redirect ''show_settings_page'')
                else updated)
             else Inr (st, [(''Profile updated!'', ''success'')],
                       Redirect ''show_settings_page''))
          else Inr (commit_user st (u\<lparr>email := None\<rparr>),
                    [(''Profile updated!'', ''success'')], Redirect ''show_settings_page''))"

definition handle_change_password :: "env \<Rightarrow> state \<Rightarrow> form \<Rightarrow> result" where
  "handle_change_password e st f =
     login_required st (\<lambda>u.
       let new_password = f ''new_password'';
           confirm_new_password = f ''confirm_password''
       in case f ''current_password'' of
            None \<Rightarrow> Inl AttributeError
          | Some current_password \<Rightarrow>
              if \<not> check_password_hash e (password_hash u) current_password then
                Inr (st, [(''Current password is incorrect'', ''error'')],
                     Redirect ''show_settings_page'')
              else if new_password \<noteq> confirm_new_password then
                Inr (st, [(''New passwords do not match'', ''error'')],
                     Redirect ''show_settings_page'')
              else
                (case new_password of
                   None \<Rightarrow> Inl AttributeError
                 | Some p \<Rightarrow>
                     Inr (commit_user st (u\<lparr>password_hash := generate_password_hash e p\<rparr>),
                          [(''Password changed!'', ''success'')],
                          Redirect ''show_settings_page'')))"

definition handle_delete_account :: "env \<Rightarrow> state \<Rightarrow> form \<Rightarrow> result" where
  "handle_delete_account e st f =
     login_required st (\<lambda>u.
       case f ''password'' of
         None \<Rightarrow> Inl AttributeError
       | Some password \<Rightarrow>
           if \<not> check_password_hash e (password_hash u) password then
             Inr (st, [(''Incorrect password'', ''error'')], Redirect ''show_settings_page'')
           else
             Inr (\<lparr>user_rows = delete_first (\<lambda>v. id_User v = id_User u) (user_rows st),
                   task_rows = filter (\<lambda>t. user_id_Task t \<noteq> id_User u) (task_rows st),
                   note_rows = filter (\<lambda>n. user_id_Note n \<noteq> id_User u) (note_rows st),
                   transaction_rows =
                     filter (\<lambda>t. user_id_Transaction t \<noteq> id_User u) (transaction_rows st),
                   session = None\<rparr>,
                  [(''Account deleted'', ''success'')], Redirect ''show_landing_page''))"

section \<open>The application as a transition system\<close>

text \<open>
  One constructor for each route. A task or note id is the integer the query string or
  form field denotes, \<open>None\<close> when it is missing or denotes none.
\<close>

datatype request =
    LandingPage
  | Login form
  | Registration form
  | ForgotPassword
  | Logout
  | Dashboard
  | TasksPage
  | AddTask form
  | UpdateTask "int option" form
  | ToggleTask "int option"
  | DeleteTask "int option"
  | NotesPage
  | AddNote form
  | UpdateNote "int option" form
  | DeleteNote "int option"
  | FocusPage
  | SessionComplete "json option"
  | AddFocusPoints "json option"
  | AchievementsPage
  | BudgetPage
  | AddTransaction form
  | SetGoal form
  | SettingsPage
  | UpdateProfile form
  | ChangePassword form
  | DeleteAccount form

fun handle :: "env \<Rightarrow> state \<Rightarrow> request \<Rightarrow> result" where
  "handle e st LandingPage = show_landing_page st"
| "handle e st (Login f) = handle_login e st f"
| "handle e st (Registration f) = handle_registration e st f"
| "handle e st ForgotPassword = handle_forgot_password st"
| "handle e st Logout = handle_logout st"
| "handle e st Dashboard = show_dashboard e st"
| "handle e st TasksPage = show_tasks_page st"
| "handle e st (AddTask f) = handle_add_task e st f"
| "handle e st (UpdateTask i f) = handle_update_task e st i f"
| "handle e st (ToggleTask i) = handle_toggle_task st i"
| "handle e st (DeleteTask i) = handle_delete_task st i"
| "handle e st NotesPage = show_notes_page st"
| "handle e st (AddNote f) = handle_add_note e st f"
| "handle e st (UpdateNote i f) = handle_update_note e st i f"
| "handle e st (DeleteNote i) = handle_delete_note st i"
| "handle e st FocusPage = show_focus_page e st"
| "handle e st (SessionComplete b) = handle_session_complete e st b"
| "handle e st (AddFocusPoints b) = handle_add_focus_points st b"
| "handle e st AchievementsPage = show_achievements_page st"
| "handle e st BudgetPage = show_budget_page e st"
| "handle e st (AddTransaction f) = handle_add_transaction e st f"
| "handle e st (SetGoal f) = handle_set_goal e st f"
| "handle e st SettingsPage = show_settings_page st"
| "handle e st (UpdateProfile f) = handle_update_profile st f"
| "handle e st (ChangePassword f) = handle_change_password e st f"
| "handle e st (DeleteAccount f) = handle_delete_account e st f"

text \<open>
  The stored state after a request: a request that raises commits nothing.
\<close>

definition step :: "state \<Rightarrow> env \<times> request \<Rightarrow> state" where
  "step st er = (case handle (fst er) st (snd er) of Inl x \<Rightarrow> st | Inr (st', m, r) \<Rightarrow> st')"

definition run :: "state \<Rightarrow> (env \<times> request) list \<Rightarrow> state" where
  "run st ers = foldl step st ers"

fun is_delete_account :: "request \<Rightarrow> bool" where
  "is_delete_account (DeleteAccount f) = True"
| "is_delete_account r = False"

text \<open>An add-focus-points request whose body carries a negative \<^verbatim>\<open>points\<close> value.\<close>

fun negative_points :: "request \<Rightarrow> bool" where
  "negative_points (AddFocusPoints (Some d)) = (points_to_add d < 0)"
| "negative_points r = False"

section \<open>Properties of states and transitions\<close>

text \<open>\<open>id\<close> is the primary key of the user table: no two rows share it.\<close>

definition primary_key :: "state \<Rightarrow> bool" where
  "primary_key st = distinct (map id_User (user_rows st))"

text \<open>
  All the ways in which a request other than account deletion changes a stored user:
  one rule for each assignment to an attribute of a user in app.py.
\<close>

inductive user_effect :: "env \<Rightarrow> request \<Rightarrow> User \<Rightarrow> User \<Rightarrow> bool" for e :: env where
  unchanged: "user_effect e r u u"
| first_login: "user_effect e (Login f) u (u\<lparr>achievement_first_login := True\<rparr>)"
| new_day: "user_effect e Dashboard u (reset_if_new_day e u)"
| first_task: "user_effect e (AddTask f) u (u\<lparr>achievement_first_task := True\<rparr>)"
| task_points: "user_effect e (ToggleTask t) u
     (u\<lparr>total_focus_points := total_focus_points u + points_earned p\<rparr>)"
| first_note: "user_effect e (AddNote f) u (u\<lparr>achievement_first_note := True\<rparr>)"
| energy: "user_effect e FocusPage u (collect_energy e u)"
| focus_session: "user_effect e (SessionComplete b) u
     (session_complete e (completed_minutes b) u)"
| focus_points: "user_effect e (AddFocusPoints (Some d)) u
     (add_focus_points (points_to_add d) u)"
| goal: "user_effect e (SetGoal f) u
     (u\<lparr>savings_goal_name := n, savings_goal_target := Some t\<rparr>)"
| email_set: "user_effect e (UpdateProfile f) u
     (u\<lparr>email := Some m, achievement_email_added := True\<rparr>)"
| email_cleared: "user_effect e (UpdateProfile f) u (u\<lparr>email := None\<rparr>)"
| password: "user_effect e (ChangePassword f) u (u\<lparr>password_hash := h\<rparr>)"

definition counters_le :: "User \<Rightarrow> User \<Rightarrow> bool" where
  "counters_le u u' =
     (total_focus_points u \<le> total_focus_points u' \<and> stars_earned u \<le> stars_earned u'
      \<and> energy_bank_balance u \<le> energy_bank_balance u')"

definition flags_le :: "User \<Rightarrow> User \<Rightarrow> bool" where
  "flags_le u u' =
     ((achievement_first_login u \<longrightarrow> achievement_first_login u')
      \<and> (achievement_first_focus u \<longrightarrow> achievement_first_focus u')
      \<and> (achievement_first_task u \<longrightarrow> achievement_first_task u')
      \<and> (achievement_first_note u \<longrightarrow> achievement_first_note u')
      \<and> (achievement_email_added u \<longrightarrow> achievement_email_added u'))"



section \<open>A small database\<close>

definition demo_env :: env where
  "demo_env =
     \<lparr>utcnow = 17000000, today = 10,
      generate_password_hash = (\<lambda>p. ''h$'' @ p),
      check_password_hash = (\<lambda>h p. h = ''h$'' @ p),
      float_of = (\<lambda>s. None), strptime_date = (\<lambda>s. None)\<rparr>"

definition demo_user :: User where
  "demo_user =
     \<lparr>id_User = 1, username = ''artur'', email = Some ''artur@demo.com'',
      password_hash = ''h$123'',
      total_focus_points = 0, stars_earned = 3, energy_bank_balance = 0,
      last_energy_collection_time = 0,
      focus_minutes_today = 25, focus_tracking_date = Some 9,
      account_created_at = 0,
      achievement_first_login = True, achievement_first_focus = False,
      achievement_first_task = False, achievement_first_note = False,
      achievement_email_added = True,
      savings_goal_name = Some ''bike'', savings_goal_target = Some 600\<rparr>"

definition demo_task :: "int \<Rightarrow> string \<Rightarrow> Task" where
  "demo_task i p =
     \<lparr>id_Task = i, user_id_Task = 1, task_title = ''revise'', start_date = 9,
      deadline_date = None, priority_level = p, is_completed = False,
      task_created_at = 0\<rparr>"

definition demo_income :: Transaction where
  "demo_income =
     \<lparr>id_Transaction = 1, user_id_Transaction = 1, transaction_type = ''income'',
      transaction_description = ''grant'', transaction_amount = 60,
      transaction_category = ''study'', transaction_date = 9\<rparr>"

definition demo_state :: state where
  "demo_state =
     \<lparr>user_rows = [demo_user],
      task_rows = [demo_task 1 ''high'', demo_task 2 ''low''],
      note_rows = [],
      transaction_rows = [demo_income],
      session = Some 1\<rparr>"

definition points_body :: "int \<Rightarrow> json" where
  "points_body n = [''points'' \<mapsto> n]"

definition minutes_body :: "int \<Rightarrow> json" where
  "minutes_body n = [''minutes'' \<mapsto> n]"

definition duplicate_form :: form where
  "duplicate_form =
     [''username'' \<mapsto> '' Artur '', ''password'' \<mapsto> ''x'', ''confirm_password'' \<mapsto> ''x'']"

definition wrong_password_form :: form where
  "wrong_password_form =
     [''current_password'' \<mapsto> ''wrong'', ''new_password'' \<mapsto> ''y'',
      ''confirm_password'' \<mapsto> ''y'']"

definition clear_email_form :: form where
  "clear_email_form = [''email'' \<mapsto> ''  '']"

section \<open>Which stored users a request changes, and how\<close>

lemma get_user_id: "get_user st i = Some u \<Longrightarrow> id_User u = i"
  by (auto simp: get_user_def find_Some_iff)

lemma get_user_commit_user:
  "get_user (commit_user st u') i =
     (if i = id_User u' then map_option (\<lambda>_. u') (get_user st i) else get_user st i)"
proof -
  have "find (\<lambda>u. id_User u = i) (update_first (\<lambda>u. id_User u = j) (\<lambda>_. u') xs) =
        (if i = j then map_option (\<lambda>_. u') (find (\<lambda>u. id_User u = i) xs)
         else find (\<lambda>u. id_User u = i) xs)" if "id_User u' = j" for xs j
    using that by (induction xs) auto
  then show ?thesis by (simp add: get_user_def commit_user_def)
qed

lemma get_user_frame [simp]:
  "get_user (st\<lparr>task_rows := ts\<rparr>) i = get_user st i"
  "get_user (st\<lparr>note_rows := ns\<rparr>) i = get_user st i"
  "get_user (st\<lparr>transaction_rows := xs\<rparr>) i = get_user st i"
  "get_user (st\<lparr>session := s\<rparr>) i = get_user st i"
  by (simp_all add: get_user_def)

lemma get_user_commit_task [simp]: "get_user (commit_task st t j x) i = get_user st i"
  by (simp add: commit_task_def)

lemma current_user_Some:
  "current_user st = Some u \<Longrightarrow> get_user st (id_User u) = Some u"
  by (auto simp: current_user_def get_user_id split: option.splits)

lemma find_primary_key:
  "distinct (map id_User xs) \<Longrightarrow> find P xs = Some u \<Longrightarrow> find (\<lambda>v. id_User v = id_User u) xs = Some u"
proof (induction xs)
  case Nil
  then show ?case by simp
next
  case (Cons x xs)
  show ?case
  proof (cases "P x")
    case True
    with Cons.prems show ?thesis by simp
  next
    case False
    with Cons.prems have f: "find P xs = Some u" by simp
    then have "u \<in> set xs" by (auto simp: find_Some_iff)
    with Cons.prems have "id_User x \<noteq> id_User u" by auto
    with Cons f show ?thesis by simp
  qed
qed

text \<open>The effect of committing a changed current user on any stored user.\<close>

lemma login_effect:
  assumes "primary_key st" "get_user st i = Some u" "handle_login e st f = Inr (st', m, rs)"
  shows "\<exists>u'. get_user st' i = Some u' \<and> user_effect e (Login f) u u'"
proof -
  let ?P = "\<lambda>u. email_matches (lower (strip (form_get f ''email'' ''''))) u
                \<or> username_matches (lower (strip (form_get f ''email'' ''''))) u"
  show ?thesis
  proof (cases "find ?P (user_rows st)")
    case None
    with assms show ?thesis
      by (auto simp: handle_login_def Let_def intro: user_effect.unchanged)
  next
    case (Some c)
    with assms(1) have c: "get_user st (id_User c) = Some c"
      unfolding primary_key_def get_user_def by (rule find_primary_key)
    from assms(2,3) Some c show ?thesis
      by (auto simp: handle_login_def Let_def get_user_commit_user user_effect.intros
               split: option.splits if_splits)
  qed
qed


lemma find_append_Some: "find P xs = Some x \<Longrightarrow> find P (xs @ ys) = Some x"
  by (induction xs) auto

lemma registration_effect:
  assumes "get_user st i = Some u" "handle_registration e st f = Inr (st', m, rs)"
  shows "get_user st' i = Some u"
  using assms
  by (auto simp: handle_registration_def Let_def get_user_def find_append_Some
           split: option.splits if_splits)

lemmas effect_simps =
  login_required_def Let_def get_user_commit_user user_effect.intros

lemma dashboard_effect:
  assumes "get_user st i = Some u" "show_dashboard e st = Inr (st', m, rs)"
  shows "\<exists>u'. get_user st' i = Some u' \<and> user_effect e Dashboard u u'"
proof -
  have "id_User (reset_if_new_day e c) = id_User c" for c
    by (simp add: reset_if_new_day_def)
  then show ?thesis
    using assms
    by (auto simp: show_dashboard_def effect_simps
             dest!: current_user_Some split: option.splits if_splits prod.splits)
qed

lemma add_task_effect:
  assumes "get_user st i = Some u" "handle_add_task e st f = Inr (st', m, rs)"
  shows "\<exists>u'. get_user st' i = Some u' \<and> user_effect e (AddTask f) u u'"
  using assms
  by (auto simp: handle_add_task_def effect_simps
           dest!: current_user_Some split: option.splits if_splits sum.splits)

lemma update_task_effect:
  assumes "get_user st i = Some u" "handle_update_task e st t f = Inr (st', m, rs)"
  shows "get_user st' i = Some u"
  using assms
  by (auto simp: handle_update_task_def effect_simps
           split: option.splits if_splits sum.splits)

lemma toggle_task_effect:
  assumes "get_user st i = Some u" "handle_toggle_task st t = Inr (st', m, rs)"
  shows "\<exists>u'. get_user st' i = Some u' \<and> user_effect e (ToggleTask t) u u'"
  using assms
  by (auto simp: handle_toggle_task_def effect_simps
           dest!: current_user_Some split: option.splits if_splits)

lemma delete_task_effect:
  assumes "get_user st i = Some u" "handle_delete_task st t = Inr (st', m, rs)"
  shows "get_user st' i = Some u"
  using assms
  by (auto simp: handle_delete_task_def effect_simps split: option.splits if_splits)

lemma add_note_effect:
  assumes "get_user st i = Some u" "handle_add_note e st f = Inr (st', m, rs)"
  shows "\<exists>u'. get_user st' i = Some u' \<and> user_effect e (AddNote f) u u'"
  using assms
  by (auto simp: handle_add_note_def effect_simps
           dest!: current_user_Some split: option.splits if_splits)

lemma update_note_effect:
  assumes "get_user st i = Some u" "handle_update_note e st t f = Inr (st', m, rs)"
  shows "get_user st' i = Some u"
  using assms
  by (auto simp: handle_update_note_def effect_simps split: option.splits if_splits)

lemma delete_note_effect:
  assumes "get_user st i = Some u" "handle_delete_note st t = Inr (st', m, rs)"
  shows "get_user st' i = Some u"
  using assms
  by (auto simp: handle_delete_note_def effect_simps split: option.splits if_splits)

lemma focus_page_effect:
  assumes "get_user st i = Some u" "show_focus_page e st = Inr (st', m, rs)"
  shows "\<exists>u'. get_user st' i = Some u' \<and> user_effect e FocusPage u u'"
proof -
  have "id_User (collect_energy e c) = id_User c" for c
    by (simp add: collect_energy_def)
  moreover have "energy_accumulated e c \<le> 0 \<Longrightarrow> collect_energy e c = c" for c
    by (simp add: collect_energy_def)
  ultimately show ?thesis
    using assms
    by (auto simp: show_focus_page_def effect_simps
             dest!: current_user_Some split: option.splits if_splits)
qed

lemma session_complete_effect:
  assumes "get_user st i = Some u" "handle_session_complete e st b = Inr (st', m, rs)"
  shows "\<exists>u'. get_user st' i = Some u' \<and> user_effect e (SessionComplete b) u u'"
proof -
  have "id_User (session_complete e n c) = id_User c" for c n
    by (simp add: session_complete_def reset_if_new_day_def Let_def)
  then show ?thesis
    using assms
    by (auto simp: handle_session_complete_def effect_simps
             dest!: current_user_Some split: option.splits if_splits)
qed

lemma add_focus_points_effect:
  assumes "get_user st i = Some u" "handle_add_focus_points st b = Inr (st', m, rs)"
  shows "\<exists>u'. get_user st' i = Some u' \<and> user_effect e (AddFocusPoints b) u u'"
proof -
  have "id_User (add_focus_points n c) = id_User c" for c n
    by (simp add: add_focus_points_def Let_def)
  then show ?thesis
    using assms
    by (auto simp: handle_add_focus_points_def effect_simps
             dest!: current_user_Some split: option.splits if_splits)
qed

lemma add_transaction_effect:
  assumes "get_user st i = Some u" "handle_add_transaction e st f = Inr (st', m, rs)"
  shows "get_user st' i = Some u"
  using assms
  by (auto simp: handle_add_transaction_def effect_simps
           split: option.splits if_splits sum.splits)

lemma set_goal_effect:
  assumes "get_user st i = Some u" "handle_set_goal e st f = Inr (st', m, rs)"
  shows "\<exists>u'. get_user st' i = Some u' \<and> user_effect e (SetGoal f) u u'"
  using assms
  by (auto simp: handle_set_goal_def effect_simps
           dest!: current_user_Some split: option.splits if_splits sum.splits)

lemma update_profile_effect:
  assumes "get_user st i = Some u" "handle_update_profile st f = Inr (st', m, rs)"
  shows "\<exists>u'. get_user st' i = Some u' \<and> user_effect e (UpdateProfile f) u u'"
  using assms
  by (auto simp: handle_update_profile_def effect_simps
           dest!: current_user_Some split: option.splits if_splits)

lemma change_password_effect:
  assumes "get_user st i = Some u" "handle_change_password e st f = Inr (st', m, rs)"
  shows "\<exists>u'. get_user st' i = Some u' \<and> user_effect e (ChangePassword f) u u'"
  using assms
  by (auto simp: handle_change_password_def effect_simps
           dest!: current_user_Some split: option.splits if_splits)

lemma read_only_effect:
  assumes "get_user st i = Some u"
  shows "show_landing_page st = Inr (st', m, rs) \<Longrightarrow> get_user st' i = Some u"
    and "handle_forgot_password st = Inr (st', m, rs) \<Longrightarrow> get_user st' i = Some u"
    and "handle_logout st = Inr (st', m, rs) \<Longrightarrow> get_user st' i = Some u"
    and "show_tasks_page st = Inr (st', m, rs) \<Longrightarrow> get_user st' i = Some u"
    and "show_notes_page st = Inr (st', m, rs) \<Longrightarrow> get_user st' i = Some u"
    and "show_achievements_page st = Inr (st', m, rs) \<Longrightarrow> get_user st' i = Some u"
    and "show_budget_page e st = Inr (st', m, rs) \<Longrightarrow> get_user st' i = Some u"
    and "show_settings_page st = Inr (st', m, rs) \<Longrightarrow> get_user st' i = Some u"
  using assms
  by (auto simp: show_landing_page_def handle_forgot_password_def handle_logout_def
        show_tasks_page_def show_notes_page_def show_achievements_page_def
        show_budget_page_def show_settings_page_def login_required_def Let_def
        split: option.splits)

lemma step_user_effect:
  assumes "primary_key st" "\<not> is_delete_account r" "get_user st i = Some u"
  shows "\<exists>u'. get_user (step st (e, r)) i = Some u' \<and> user_effect e r u u'"
proof (cases "handle e st r")
  case (Inl x)
  with assms(3) show ?thesis by (simp add: step_def user_effect.unchanged)
next
  case (Inr p)
  obtain st' m rs where p: "p = (st', m, rs)" by (cases p)
  with Inr have st': "step st (e, r) = st'" by (simp add: step_def)
  from Inr p assms show ?thesis
    unfolding st'
    by (cases r)
       (auto simp: user_effect.unchanged
             dest: login_effect registration_effect dashboard_effect add_task_effect
               update_task_effect toggle_task_effect delete_task_effect add_note_effect
               update_note_effect delete_note_effect focus_page_effect
               session_complete_effect add_focus_points_effect add_transaction_effect
               set_goal_effect update_profile_effect change_password_effect
               read_only_effect)
qed

lemma demo_state_user: "get_user demo_state 1 = Some demo_user"
  by (simp add: get_user_def demo_state_def demo_user_def)

lemma demo_state_primary_key: "primary_key demo_state"
  by (simp add: primary_key_def demo_state_def)

lemma demo_state_current_user: "current_user demo_state = Some demo_user"
  by (simp add: current_user_def get_user_def demo_state_def demo_user_def)

section \<open>The cumulative counters\<close>

lemma points_earned_nonneg: "0 \<le> points_earned p"
  by (simp add: points_earned_def)

lemma user_effect_counters:
  assumes "user_effect e r u u'" "\<not> negative_points r"
  shows "counters_le u u'"
  using assms
  by (cases rule: user_effect.cases)
     (auto simp: counters_le_def reset_if_new_day_def collect_energy_def points_earned_nonneg
        session_complete_def add_focus_points_def Let_def)

text \<open>
  Claim C1, as amended. In a database whose user ids are a primary key, every request
  other than account deletion, and other than an add-focus-points request whose
  \<^verbatim>\<open>points\<close> value is negative, leaves \<open>total_focus_points\<close>, \<open>stars_earned\<close> and
  \<open>energy_bank_balance\<close> of every stored user at least as large as they were.
\<close>

theorem C1_counters_monotone:
  assumes "primary_key st" "\<not> is_delete_account r" "\<not> negative_points r"
    and "get_user st i = Some u"
  shows "\<exists>u'. get_user (step st (e, r)) i = Some u' \<and> counters_le u u'"
  using step_user_effect [OF assms(1,2,4), of e] user_effect_counters [OF _ assms(3)]
  by blast

theorem C1_counters_monotone_witness:
  "primary_key demo_state \<and> \<not> is_delete_account (ToggleTask (Some 1))
   \<and> \<not> negative_points (ToggleTask (Some 1)) \<and> get_user demo_state 1 = Some demo_user
   \<and> (\<exists>u'. get_user (step demo_state (demo_env, ToggleTask (Some 1))) 1 = Some u'
            \<and> counters_le demo_user u')"
proof -
  have a: "primary_key demo_state"
    by (simp add: primary_key_def demo_state_def)
  have b: "get_user demo_state 1 = Some demo_user"
    by (simp add: get_user_def demo_state_def demo_user_def)
  from C1_counters_monotone [OF a _ _ b, of "ToggleTask (Some 1)" demo_env] a b
  show ?thesis by simp
qed

text \<open>
  Claim C1 as stated fails: the add-focus-points endpoint adds the caller's \<^verbatim>\<open>points\<close>
  value whatever its sign, so \<^verbatim>\<open>{"points": -5}\<close> takes \<open>total_focus_points\<close> from 0
  to -5.
\<close>

theorem C1_negative_points_counterexample:
  "\<not> is_delete_account (AddFocusPoints (Some (points_body (- 5))))
   \<and> get_user demo_state 1 = Some demo_user
   \<and> get_user (step demo_state (demo_env, AddFocusPoints (Some (points_body (- 5))))) 1
       = Some (demo_user\<lparr>total_focus_points := - 5\<rparr>)
   \<and> \<not> counters_le demo_user (demo_user\<lparr>total_focus_points := - 5\<rparr>)"
  by (simp add: step_def handle_add_focus_points_def login_required_def current_user_def
        get_user_def demo_state_def demo_user_def commit_user_def add_focus_points_def
        points_to_add_def points_body_def counters_le_def Let_def)

section \<open>Energy accrual\<close>

lemma py_int_nonneg: "0 \<le> x \<Longrightarrow> py_int x = \<lfloor>x\<rfloor>"
  by (simp add: py_int_def)

lemma step_focus_page:
  assumes "current_user st = Some u"
  shows "get_user (step st (e, FocusPage)) (id_User u) = Some (collect_energy e u)"
proof -
  have "id_User (collect_energy e u) = id_User u" 
    by (simp add: collect_energy_def)
  moreover have "energy_accumulated e u \<le> 0 \<Longrightarrow> collect_energy e u = u" 
    by (simp add: collect_energy_def)
  ultimately show ?thesis
    using assms current_user_Some [OF assms]
    by (simp add: step_def show_focus_page_def login_required_def Let_def get_user_commit_user)
qed

text \<open>
  Claim C2. With \<open>k\<close> stars and \<open>s \<ge> 0\<close> seconds since the last collection, viewing
  the focus page computes the energy \<open>\<lfloor>s / 5\<rfloor> * k\<close>; when it is positive it is added to
  \<open>energy_bank_balance\<close> and \<open>last_energy_collection_time\<close> becomes the current time,
  and otherwise the stored user is unchanged. With \<open>k = 3\<close> and \<open>s = 17\<close> the energy
  is 9, and with \<open>k = 0\<close> the anchor never advances.
\<close>

theorem C2_energy_accrual:
  assumes "current_user st = Some u" "last_energy_collection_time u \<le> utcnow e"
  shows "energy_accumulated e u
           = \<lfloor>total_seconds (utcnow e) (last_energy_collection_time u) / 5\<rfloor> * stars_earned u
     \<and> get_user (step st (e, FocusPage)) (id_User u)
         = Some (if 0 < energy_accumulated e u
                 then u\<lparr>energy_bank_balance := energy_bank_balance u + energy_accumulated e u,
                        last_energy_collection_time := utcnow e\<rparr>
                 else u)
     \<and> (stars_earned u = 3 \<and> total_seconds (utcnow e) (last_energy_collection_time u) = 17
          \<longrightarrow> energy_accumulated e u = 9)
     \<and> (stars_earned u = 0 \<longrightarrow> get_user (step st (e, FocusPage)) (id_User u) = Some u)"
proof -
  have s: "0 \<le> total_seconds (utcnow e) (last_energy_collection_time u) / 5"
    using assms(2) by (simp add: total_seconds_def)
  have a: "energy_accumulated e u
           = \<lfloor>total_seconds (utcnow e) (last_energy_collection_time u) / 5\<rfloor> * stars_earned u"
    by (simp add: energy_accumulated_def py_int_nonneg [OF s])
  have b: "get_user (step st (e, FocusPage)) (id_User u) = Some (collect_energy e u)"
    by (rule step_focus_page [OF assms(1)])
  have c: "\<lfloor>17 / 5 :: rat\<rfloor> = 3" by code_simp
  show ?thesis
    using a b c by (auto simp: collect_energy_def)
qed

theorem C2_energy_accrual_witness:
  "current_user demo_state = Some demo_user
   \<and> last_energy_collection_time demo_user \<le> utcnow demo_env
   \<and> energy_accumulated demo_env demo_user = 9
   \<and> get_user (step demo_state (demo_env, FocusPage)) 1
       = Some (demo_user\<lparr>energy_bank_balance := 9, last_energy_collection_time := 17000000\<rparr>)"
proof -
  have a: "current_user demo_state = Some demo_user"
    by (rule demo_state_current_user)
  have b: "last_energy_collection_time demo_user \<le> utcnow demo_env"
    by (simp add: demo_user_def demo_env_def)
  have c: "total_seconds (utcnow demo_env) (last_energy_collection_time demo_user) = 17"
    by (simp add: total_seconds_def demo_user_def demo_env_def)
  have d: "stars_earned demo_user = 3" "id_User demo_user = 1"
    "energy_bank_balance demo_user = 0" "utcnow demo_env = 17000000"
    by (simp_all add: demo_user_def demo_env_def)
  from C2_energy_accrual [OF a b] a b c d show ?thesis by simp
qed

section \<open>Focus sessions and the daily reset\<close>

lemma id_User_session_complete [simp]: "id_User (session_complete e n u) = id_User u"
  by (simp add: session_complete_def reset_if_new_day_def Let_def)

lemma id_User_reset_if_new_day [simp]: "id_User (reset_if_new_day e u) = id_User u"
  by (simp add: reset_if_new_day_def)

lemma step_session_complete:
  assumes "current_user st = Some u"
  shows "get_user (step st (e, SessionComplete b)) (id_User u)
           = Some (session_complete e (completed_minutes b) u)"
  using assms current_user_Some [OF assms]
  by (simp add: step_def handle_session_complete_def login_required_def Let_def
        get_user_commit_user)

lemma show_dashboard_Home:
  assumes "current_user st = Some u"
  shows "\<exists>st' v. show_dashboard e st = Inr (st', [], Home v)
           \<and> get_user st' (id_User u) = Some (reset_if_new_day e u)
           \<and> task_rows st' = task_rows st
           \<and> hv_focus_minutes_today v = focus_minutes_today (reset_if_new_day e u)
           \<and> hv_daily_focus_goal v = fst (daily_focus_goal (task_rows st) (id_User u))
           \<and> hv_progress_percentage v
               = progress_percentage (focus_minutes_today (reset_if_new_day e u))
                   (fst (daily_focus_goal (task_rows st) (id_User u)))"
proof -
  have "focus_tracking_date u = Some (today e) \<Longrightarrow> reset_if_new_day e u = u"
    by (simp add: reset_if_new_day_def)
  moreover have "task_rows (commit_user st x) = task_rows st" for x
    by (simp add: commit_user_def)
  ultimately show ?thesis
    using assms current_user_Some [OF assms]
    by (auto simp: show_dashboard_def login_required_def Let_def get_user_commit_user
          split: prod.splits)
qed

lemma step_dashboard:
  assumes "current_user st = Some u"
  shows "get_user (step st (e, Dashboard)) (id_User u) = Some (reset_if_new_day e u)"
  using show_dashboard_Home [OF assms, of e] by (auto simp: step_def)





text \<open>
  Claim C6. On a date after the stored \<open>focus_tracking_date\<close>, the dashboard and the
  focus-session completion both reset \<open>focus_minutes_today\<close> to 0 and set
  \<open>focus_tracking_date\<close> to today before they use or increment the value, whatever the
  value stored before: the dashboard shows 0 and stores 0, a completed session stores
  just its own minutes.
\<close>

theorem C6_daily_reset:
  assumes "current_user st = Some u" "focus_tracking_date u = Some d" "d < today e"
  shows "get_user (step st (e, Dashboard)) (id_User u)
           = Some (u\<lparr>focus_minutes_today := 0, focus_tracking_date := Some (today e)\<rparr>)
     \<and> (\<exists>st' v. show_dashboard e st = Inr (st', [], Home v) \<and> hv_focus_minutes_today v = 0)
     \<and> (\<exists>u'. get_user (step st (e, SessionComplete b)) (id_User u) = Some u'
           \<and> focus_minutes_today u' = 0 + completed_minutes b
           \<and> focus_tracking_date u' = Some (today e))"
proof -
  from assms(2,3) have r: "reset_if_new_day e u
      = u\<lparr>focus_minutes_today := 0, focus_tracking_date := Some (today e)\<rparr>"
    by (simp add: reset_if_new_day_def)
  from assms(2,3) have n: "focus_tracking_date u \<noteq> Some (today e)" by simp
  have "\<exists>st' v. show_dashboard e st = Inr (st', [], Home v) \<and> hv_focus_minutes_today v = 0"
    using show_dashboard_Home [OF assms(1), of e] r by auto
  then show ?thesis
    using n
    by (simp add: step_dashboard [OF assms(1)] r step_session_complete [OF assms(1)]
          session_complete_def reset_if_new_day_def Let_def)
qed

theorem C6_daily_reset_witness:
  "current_user demo_state = Some demo_user \<and> focus_tracking_date demo_user = Some 9
   \<and> 9 < today demo_env \<and> focus_minutes_today demo_user = 25
   \<and> get_user (step demo_state (demo_env, Dashboard)) 1
       = Some (demo_user\<lparr>focus_minutes_today := 0, focus_tracking_date := Some 10\<rparr>)
   \<and> (\<exists>st' v. show_dashboard demo_env demo_state = Inr (st', [], Home v)
          \<and> hv_focus_minutes_today v = 0)
   \<and> (\<exists>u'. get_user (step demo_state (demo_env, SessionComplete (Some (minutes_body 7)))) 1
              = Some u'
          \<and> focus_minutes_today u' = 7 \<and> focus_tracking_date u' = Some 10)"
proof -
  have a: "current_user demo_state = Some demo_user"
    by (rule demo_state_current_user)
  have b: "focus_tracking_date demo_user = Some 9" "focus_minutes_today demo_user = 25"
    by (simp_all add: demo_user_def)
  have c: "9 < today demo_env" "today demo_env = 10" "id_User demo_user = 1"
    by (simp_all add: demo_env_def demo_user_def)
  have d: "completed_minutes (Some (minutes_body 7)) = 7"
    by (simp add: completed_minutes_def minutes_body_def)
  from C6_daily_reset [OF a b(1) c(1), of "Some (minutes_body 7)"] a b c d
  show ?thesis by simp
qed

section \<open>Task completion\<close>

lemma find_update_first_const:
  "find P xs = Some x \<Longrightarrow> P y \<Longrightarrow> find P (update_first P (\<lambda>_. y) xs) = Some y"
  by (induction xs) (auto split: if_splits)

lemma find_task_commit_task:
  assumes "find_task st t i = Some k" "id_Task k' = id_Task k" "user_id_Task k' = user_id_Task k"
  shows "find_task (commit_task st t i k') t i = Some k'"
proof -
  from assms(1) have "Some (id_Task k) = t \<and> user_id_Task k = i"
    by (auto simp: find_task_def find_Some_iff)
  with assms show ?thesis
    by (simp add: find_task_def commit_task_def find_update_first_const)
qed

lemma find_task_commit_user [simp]: "find_task (commit_user st x) t i = find_task st t i"
  by (simp add: find_task_def commit_user_def)

lemma session_commit [simp]:
  "session (commit_user st x) = session st" "session (commit_task st t i k) = session st"
  by (simp_all add: commit_user_def commit_task_def)

lemma current_user_commit_task [simp]:
  "current_user (commit_task st t i k) = current_user st"
  by (simp add: current_user_def split: option.splits)

lemma current_user_commit_user:
  assumes "current_user st = Some u" "id_User u' = id_User u"
  shows "current_user (commit_user st u') = Some u'"
  using assms current_user_Some [OF assms(1)]
  by (auto simp: current_user_def get_user_commit_user dest: get_user_id
        split: option.splits)

lemma toggle_once:
  assumes "current_user st = Some u" "find_task st t (id_User u) = Some k"
  shows "current_user (step st (e, ToggleTask t))
           = Some (u\<lparr>total_focus_points := total_focus_points u
                       + (if is_completed k then 0 else points_earned (priority_level k))\<rparr>)
     \<and> find_task (step st (e, ToggleTask t)) t (id_User u)
           = Some (k\<lparr>is_completed := \<not> is_completed k\<rparr>)"
proof -
  let ?k = "k\<lparr>is_completed := \<not> is_completed k\<rparr>"
  have f: "find_task (commit_task st t (id_User u) ?k) t (id_User u) = Some ?k"
    by (rule find_task_commit_task [OF assms(2)]) simp_all
  show ?thesis
  proof (cases "is_completed k")
    case True
    with assms have "step st (e, ToggleTask t) = commit_task st t (id_User u) ?k"
      by (simp add: step_def handle_toggle_task_def login_required_def Let_def)
    with True f assms(1) show ?thesis by simp
  next
    case False
    let ?u = "u\<lparr>total_focus_points := total_focus_points u + points_earned (priority_level k)\<rparr>"
    from False assms
    have "step st (e, ToggleTask t) = commit_user (commit_task st t (id_User u) ?k) ?u"
      by (simp add: step_def handle_toggle_task_def login_required_def Let_def)
    moreover have "current_user (commit_user (commit_task st t (id_User u) ?k) ?u) = Some ?u"
      by (rule current_user_commit_user) (simp_all add: assms(1))
    ultimately show ?thesis using False f by simp
  qed
qed

text \<open>
  Claim C4. Toggling an owned task flips \<open>is_completed\<close>. From incomplete to complete
  it adds to \<open>total_focus_points\<close> 30 for priority \<^verbatim>\<open>high\<close>, 20 for \<^verbatim>\<open>medium\<close>, 10
  for \<^verbatim>\<open>low\<close> and 10 for any other priority; from complete to incomplete it adds and
  subtracts nothing. So three toggles of an incomplete high-priority task (complete,
  incomplete, complete) add 30 twice.
\<close>

theorem C4_toggle_task:
  assumes "current_user st = Some u" "find_task st t (id_User u) = Some k"
  shows "find_task (step st (e, ToggleTask t)) t (id_User u)
           = Some (k\<lparr>is_completed := \<not> is_completed k\<rparr>)
     \<and> get_user (step st (e, ToggleTask t)) (id_User u)
           = Some (u\<lparr>total_focus_points := total_focus_points u
                       + (if is_completed k then 0
                          else if priority_level k = ''high'' then 30
                          else if priority_level k = ''medium'' then 20
                          else if priority_level k = ''low'' then 10 else 10)\<rparr>)
     \<and> (\<not> is_completed k \<and> priority_level k = ''high'' \<longrightarrow>
          map_option total_focus_points
            (get_user (run st [(e, ToggleTask t), (e', ToggleTask t), (e'', ToggleTask t)])
               (id_User u))
          = Some (total_focus_points u + 30 + 30))"
proof -
  have p: "points_earned (priority_level k)
           = (if priority_level k = ''high'' then 30
              else if priority_level k = ''medium'' then 20
              else if priority_level k = ''low'' then 10 else 10)"
    by (simp add: points_earned_def)
  note one = toggle_once [OF assms, of e]
  have a: "get_user (step st (e, ToggleTask t)) (id_User u)
           = Some (u\<lparr>total_focus_points := total_focus_points u
                       + (if is_completed k then 0 else points_earned (priority_level k))\<rparr>)"
    using current_user_Some [OF conjunct1 [OF one]] by simp
  have c: "map_option total_focus_points
            (get_user (run st [(e, ToggleTask t), (e', ToggleTask t), (e'', ToggleTask t)])
               (id_User u))
          = Some (total_focus_points u + 30 + 30)"
    if h: "\<not> is_completed k" "priority_level k = ''high''"
  proof -
    let ?u1 = "u\<lparr>total_focus_points := total_focus_points u + 30\<rparr>"
    let ?k1 = "k\<lparr>is_completed := True\<rparr>"
    let ?s1 = "step st (e, ToggleTask t)"
    from one h have u1: "current_user ?s1 = Some ?u1"
      and k1: "find_task ?s1 t (id_User ?u1) = Some ?k1"
      by (simp_all add: points_earned_def)
    let ?s2 = "step ?s1 (e', ToggleTask t)"
    let ?k2 = "k\<lparr>is_completed := False\<rparr>"
    from toggle_once [OF u1 k1, of e'] have u2: "current_user ?s2 = Some ?u1"
      and k2: "find_task ?s2 t (id_User ?u1) = Some ?k2"
      by simp_all
    let ?s3 = "step ?s2 (e'', ToggleTask t)"
    from toggle_once [OF u2 k2, of e''] h
    have "current_user ?s3 = Some (u\<lparr>total_focus_points := total_focus_points u + 30 + 30\<rparr>)"
      by (simp add: points_earned_def)
    from current_user_Some [OF this] show ?thesis
      by (simp add: run_def)
  qed
  from one a c p show ?thesis by simp
qed

theorem C4_toggle_task_witness:
  "current_user demo_state = Some demo_user
   \<and> find_task demo_state (Some 1) 1 = Some (demo_task 1 ''high'')
   \<and> find_task (step demo_state (demo_env, ToggleTask (Some 1))) (Some 1) 1
       = Some ((demo_task 1 ''high'')\<lparr>is_completed := True\<rparr>)
   \<and> get_user (step demo_state (demo_env, ToggleTask (Some 1))) 1
       = Some (demo_user\<lparr>total_focus_points := 30\<rparr>)
   \<and> map_option total_focus_points
        (get_user (run demo_state [(demo_env, ToggleTask (Some 1)),
           (demo_env, ToggleTask (Some 1)), (demo_env, ToggleTask (Some 1))]) 1) = Some 60"
proof -
  have a: "current_user demo_state = Some demo_user"
    by (rule demo_state_current_user)
  have i: "id_User demo_user = 1" "total_focus_points demo_user = 0"
    by (simp_all add: demo_user_def)
  have b: "find_task demo_state (Some 1) (id_User demo_user) = Some (demo_task 1 ''high'')"
    by (simp add: find_task_def demo_state_def demo_task_def demo_user_def)
  have c: "\<not> is_completed (demo_task 1 ''high'')" "priority_level (demo_task 1 ''high'') = ''high''"
    by (simp_all add: demo_task_def)
  from C4_toggle_task [OF a b, of demo_env demo_env demo_env] a b c i
  show ?thesis by simp
qed

section \<open>The daily focus goal and the progress bar\<close>







section \<open>The savings goal estimate\<close>





section \<open>Validation failures\<close>

lemma find_username_matches:
  "(find (username_matches n) xs \<noteq> None) = (\<exists>v\<in>set xs. lower (username v) = n)"
  by (auto simp: find_None_iff username_matches_def)

lemma find_email_matches:
  "(find (email_matches n) xs \<noteq> None) = (\<exists>v\<in>set xs. \<exists>a. email v = Some a \<and> lower a = n)"
  by (auto simp: find_None_iff email_matches_def split: option.splits)

text \<open>
  Claim C9. A registration whose passwords differ, or whose username or email is that of
  a stored user, and a password change whose current password is wrong or whose new
  passwords differ, end with one error message and leave the whole stored state as it
  was: no user is created and no field of a user, \<open>password_hash\<close> included, changes.
\<close>

theorem C9_validation_failure:
  "(f ''password'' \<noteq> f ''confirm_password''
      \<or> (\<exists>v\<in>set (user_rows st). lower (username v) = lower (strip (form_get f ''username'' '''')))
      \<or> (lower (strip (form_get f ''email'' '''')) \<noteq> []
          \<and> (\<exists>v\<in>set (user_rows st). \<exists>a. email v = Some a
                 \<and> lower a = lower (strip (form_get f ''email'' ''''))))
    \<longrightarrow> (\<exists>msg. handle_registration e st f
                  = Inr (st, [(msg, ''error'')], Redirect ''show_landing_page''))
        \<and> step st (e, Registration f) = st)
   \<and> (current_user st = Some u \<and> g ''current_password'' = Some p
        \<and> (\<not> check_password_hash e (password_hash u) p
            \<or> g ''new_password'' \<noteq> g ''confirm_password'')
    \<longrightarrow> (\<exists>msg. handle_change_password e st g
                  = Inr (st, [(msg, ''error'')], Redirect ''show_settings_page''))
        \<and> step st (e, ChangePassword g) = st)"
proof (intro conjI impI)
  assume h: "f ''password'' \<noteq> f ''confirm_password''
      \<or> (\<exists>v\<in>set (user_rows st). lower (username v) = lower (strip (form_get f ''username'' '''')))
      \<or> (lower (strip (form_get f ''email'' '''')) \<noteq> []
          \<and> (\<exists>v\<in>set (user_rows st). \<exists>a. email v = Some a
                 \<and> lower a = lower (strip (form_get f ''email'' ''''))))"
  then show r: "\<exists>msg. handle_registration e st f
                  = Inr (st, [(msg, ''error'')], Redirect ''show_landing_page'')"
    unfolding handle_registration_def Let_def find_username_matches find_email_matches
    by (simp only: if_True if_False split: if_splits) auto
  then show "step st (e, Registration f) = st"
    by (auto simp: step_def)
next
  assume h: "current_user st = Some u \<and> g ''current_password'' = Some p
        \<and> (\<not> check_password_hash e (password_hash u) p
            \<or> g ''new_password'' \<noteq> g ''confirm_password'')"
  then show r: "\<exists>msg. handle_change_password e st g
                  = Inr (st, [(msg, ''error'')], Redirect ''show_settings_page'')"
    by (auto simp: handle_change_password_def login_required_def Let_def)
  then show "step st (e, ChangePassword g) = st"
    by (auto simp: step_def)
qed

theorem C9_validation_failure_witness:
  "lower (username demo_user) = lower (strip (form_get duplicate_form ''username'' ''''))
   \<and> (\<exists>msg. handle_registration demo_env demo_state duplicate_form
                = Inr (demo_state, [(msg, ''error'')], Redirect ''show_landing_page''))
   \<and> step demo_state (demo_env, Registration duplicate_form) = demo_state
   \<and> current_user demo_state = Some demo_user
   \<and> wrong_password_form ''current_password'' = Some ''wrong''
   \<and> \<not> check_password_hash demo_env (password_hash demo_user) ''wrong''
   \<and> (\<exists>msg. handle_change_password demo_env demo_state wrong_password_form
                = Inr (demo_state, [(msg, ''error'')], Redirect ''show_settings_page''))
   \<and> step demo_state (demo_env, ChangePassword wrong_password_form) = demo_state"
proof -
  have a: "lower (username demo_user) = lower (strip (form_get duplicate_form ''username'' ''''))"
    by code_simp
  have b: "demo_user \<in> set (user_rows demo_state)"
    by (simp add: demo_state_def)
  have c: "current_user demo_state = Some demo_user"
    by (rule demo_state_current_user)
  have d: "wrong_password_form ''current_password'' = Some ''wrong''"
    by (simp add: wrong_password_form_def)
  have e: "\<not> check_password_hash demo_env (password_hash demo_user) ''wrong''"
    by (simp add: demo_env_def demo_user_def)
  from a b have r: "\<exists>v\<in>set (user_rows demo_state).
      lower (username v) = lower (strip (form_get duplicate_form ''username'' ''''))"
    by blast
  from C9_validation_failure [of duplicate_form demo_state demo_env demo_user
         wrong_password_form "''wrong''"] r a c d e
  show ?thesis by simp
qed

section \<open>Achievement flags\<close>

lemma user_effect_flags:
  assumes "user_effect e r u u'"
  shows "flags_le u u'"
  using assms
  by (cases rule: user_effect.cases)
     (auto simp: flags_le_def reset_if_new_day_def collect_energy_def
        session_complete_def add_focus_points_def Let_def)

lemma flags_le_trans: "flags_le u v \<Longrightarrow> flags_le v w \<Longrightarrow> flags_le u w"
  by (auto simp: flags_le_def)

lemma map_id_update_first:
  "id_User u' = i \<Longrightarrow>
   map id_User (update_first (\<lambda>u. id_User u = i) (\<lambda>_. u') xs) = map id_User xs"
  by (induction xs) auto

lemma user_ids_commit_user [simp]:
  "map id_User (user_rows (commit_user st u')) = map id_User (user_rows st)"
  by (simp add: commit_user_def map_id_update_first)

lemma user_rows_commit_task [simp]: "user_rows (commit_task st t i k) = user_rows st"
  by (simp add: commit_task_def)

lemma fold_max_ge: "a \<le> fold max xs (a::int)"
proof (induction xs arbitrary: a)
  case Nil
  show ?case by simp
next
  case (Cons x xs)
  have "a \<le> max x a" by simp
  also have "\<dots> \<le> fold max xs (max x a)" by (rule Cons.IH)
  finally show ?case by simp
qed

lemma fold_max_member: "x \<in> set xs \<Longrightarrow> x \<le> fold max xs (a::int)"
proof (induction xs arbitrary: a)
  case Nil
  then show ?case by simp
next
  case (Cons y ys)
  show ?case
  proof (cases "x = y")
    case True
    have "x \<le> max y a" using True by simp
    also have "\<dots> \<le> fold max ys (max y a)" by (rule fold_max_ge)
    finally show ?thesis by simp
  next
    case False
    with Cons.prems have "x \<in> set ys" by simp
    from Cons.IH [OF this] show ?thesis by simp
  qed
qed

lemma next_id_fresh: "next_id ids \<notin> set ids"
proof
  assume "next_id ids \<in> set ids"
  from fold_max_member [OF this, of 0] show False by (simp add: next_id_def)
qed

lemma handle_user_ids:
  assumes "handle e st r = Inr (st', m, rs)" "\<not> is_delete_account r"
  shows "map id_User (user_rows st') = map id_User (user_rows st)
       \<or> map id_User (user_rows st')
           = map id_User (user_rows st) @ [next_id (map id_User (user_rows st))]"
proof (cases r)
  case (Login f)
  with assms show ?thesis
    by (auto simp: handle_login_def Let_def split: option.splits if_splits)
next
  case (Registration f)
  with assms show ?thesis
    by (auto simp: handle_registration_def Let_def new_user_def split: option.splits if_splits)
next
  case Dashboard
  with assms show ?thesis
    by (auto simp: show_dashboard_def login_required_def Let_def
          split: option.splits if_splits prod.splits)
next
  case (AddTask f)
  with assms show ?thesis
    by (auto simp: handle_add_task_def login_required_def Let_def
          split: option.splits if_splits sum.splits)
next
  case (UpdateTask t f)
  with assms show ?thesis
    by (auto simp: handle_update_task_def login_required_def Let_def
          split: option.splits if_splits sum.splits)
next
  case (ToggleTask t)
  with assms show ?thesis
    by (auto simp: handle_toggle_task_def login_required_def Let_def
          split: option.splits if_splits)
next
  case (DeleteTask t)
  with assms show ?thesis
    by (auto simp: handle_delete_task_def login_required_def split: option.splits)
next
  case (AddNote f)
  with assms show ?thesis
    by (auto simp: handle_add_note_def login_required_def Let_def
          split: option.splits if_splits)
next
  case (UpdateNote t f)
  with assms show ?thesis
    by (auto simp: handle_update_note_def login_required_def Let_def
          split: option.splits if_splits)
next
  case (DeleteNote t)
  with assms show ?thesis
    by (auto simp: handle_delete_note_def login_required_def split: option.splits)
next
  case FocusPage
  with assms show ?thesis
    by (auto simp: show_focus_page_def login_required_def Let_def
          split: option.splits if_splits)
next
  case (SessionComplete b)
  with assms show ?thesis
    by (auto simp: handle_session_complete_def login_required_def Let_def
          split: option.splits)
next
  case (AddFocusPoints b)
  with assms show ?thesis
    by (auto simp: handle_add_focus_points_def login_required_def Let_def
          split: option.splits)
next
  case (AddTransaction f)
  with assms show ?thesis
    by (auto simp: handle_add_transaction_def login_required_def Let_def
          split: option.splits sum.splits)
next
  case (SetGoal f)
  with assms show ?thesis
    by (auto simp: handle_set_goal_def login_required_def Let_def
          split: option.splits sum.splits)
next
  case (UpdateProfile f)
  with assms show ?thesis
    by (auto simp: handle_update_profile_def login_required_def Let_def
          split: option.splits if_splits)
next
  case (ChangePassword f)
  with assms show ?thesis
    by (auto simp: handle_change_password_def login_required_def Let_def
          split: option.splits if_splits)
next
  case (DeleteAccount f)
  with assms show ?thesis by simp
qed (use assms in \<open>auto simp: show_landing_page_def handle_forgot_password_def
       handle_logout_def show_tasks_page_def show_notes_page_def show_achievements_page_def
       show_budget_page_def show_settings_page_def login_required_def Let_def
       split: option.splits\<close>)

lemma step_primary_key:
  assumes "primary_key st" "\<not> is_delete_account r"
  shows "primary_key (step st (e, r))"
proof (cases "handle e st r")
  case (Inl x)
  with assms(1) show ?thesis by (simp add: step_def)
next
  case (Inr p)
  obtain st' m rs where p: "p = (st', m, rs)" by (cases p)
  with Inr have s: "step st (e, r) = st'" by (simp add: step_def)
  from handle_user_ids [OF Inr [unfolded p] assms(2)] assms(1)
    next_id_fresh [of "map id_User (user_rows st)"]
  show ?thesis unfolding s primary_key_def by auto
qed

lemma run_flags:
  assumes "\<forall>er\<in>set ers. \<not> is_delete_account (snd er)"
    and "primary_key st" "get_user st i = Some u"
  shows "primary_key (run st ers) \<and> (\<exists>u'. get_user (run st ers) i = Some u' \<and> flags_le u u')"
  using assms
proof (induction ers arbitrary: st u)
  case Nil
  then show ?case by (simp add: run_def flags_le_def)
next
  case (Cons er ers)
  obtain e r where er: "er = (e, r)" by (cases er)
  with Cons.prems(1) have nd: "\<not> is_delete_account r" by simp
  from step_user_effect [OF Cons.prems(2) nd Cons.prems(3), of e]
  obtain v where v: "get_user (step st er) i = Some v" "user_effect e r u v"
    unfolding er by blast
  have pk: "primary_key (step st er)"
    unfolding er by (rule step_primary_key [OF Cons.prems(2) nd])
  from Cons.prems(1) have rest: "\<forall>er\<in>set ers. \<not> is_delete_account (snd er)" by simp
  from Cons.IH [OF rest pk v(1)]
  obtain w where w: "primary_key (run (step st er) ers)"
    "get_user (run (step st er) ers) i = Some w" "flags_le v w"
    by blast
  from flags_le_trans [OF user_effect_flags [OF v(2)] w(3)] w(1,2)
  show ?case by (simp add: run_def)
qed

lemma lower_Nil [simp]: "(lower s = []) = (s = [])"
  by (simp add: lower_def)

text \<open>
  Claim C8. Along every sequence of requests none of which is an account deletion, each
  of the five achievement flags of every stored user, once true, stays true. In
  particular a profile update that clears the email leaves \<open>achievement_email_added\<close>
  as it was.
\<close>

theorem C8_achievements_monotone:
  assumes "primary_key st" "\<forall>er\<in>set ers. \<not> is_delete_account (snd er)"
    and "get_user st i = Some u"
  shows "(\<exists>u'. get_user (run st ers) i = Some u' \<and> flags_le u u')
     \<and> (current_user st = Some u \<and> strip (form_get f ''email'' '''') = []
          \<longrightarrow> (\<exists>u'. get_user (step st (e, UpdateProfile f)) i = Some u' \<and> email u' = None
                  \<and> achievement_email_added u' = achievement_email_added u))"
proof (intro conjI impI)
  from run_flags [OF assms(2,1,3)]
  show "\<exists>u'. get_user (run st ers) i = Some u' \<and> flags_le u u'" by blast
next
  assume h: "current_user st = Some u \<and> strip (form_get f ''email'' '''') = []"
  then have c: "current_user st = Some u" and s: "strip (form_get f ''email'' '''') = []"
    by simp_all
  from assms(3) have i: "id_User u = i" by (rule get_user_id)
  from c s have "step st (e, UpdateProfile f) = commit_user st (u\<lparr>email := None\<rparr>)"
    by (simp add: step_def handle_update_profile_def login_required_def Let_def)
  with assms(3) i
  show "\<exists>u'. get_user (step st (e, UpdateProfile f)) i = Some u' \<and> email u' = None
          \<and> achievement_email_added u' = achievement_email_added u"
    by (simp add: get_user_commit_user)
qed

theorem C8_achievements_monotone_witness:
  "primary_key demo_state
   \<and> \<not> is_delete_account (UpdateProfile clear_email_form) \<and> \<not> is_delete_account Logout
   \<and> get_user demo_state 1 = Some demo_user \<and> current_user demo_state = Some demo_user
   \<and> strip (form_get clear_email_form ''email'' '''') = []
   \<and> achievement_first_login demo_user \<and> achievement_email_added demo_user
   \<and> (\<exists>u'. get_user (run demo_state
                [(demo_env, UpdateProfile clear_email_form), (demo_env, Logout)]) 1 = Some u'
          \<and> achievement_first_login u' \<and> achievement_email_added u')
   \<and> (\<exists>u'. get_user (step demo_state (demo_env, UpdateProfile clear_email_form)) 1 = Some u'
          \<and> email u' = None \<and> achievement_email_added u')"
proof -
  have a: "primary_key demo_state" by (rule demo_state_primary_key)
  have b: "\<forall>er\<in>set [(demo_env, UpdateProfile clear_email_form), (demo_env, Logout)].
             \<not> is_delete_account (snd er)"
    by simp
  have c: "get_user demo_state 1 = Some demo_user" by (rule demo_state_user)
  have d: "current_user demo_state = Some demo_user" by (rule demo_state_current_user)
  have s: "strip (form_get clear_email_form ''email'' '''') = []"
    by code_simp
  have g: "achievement_first_login demo_user" "achievement_email_added demo_user"
    by (simp_all add: demo_user_def)
  from C8_achievements_monotone [OF a b c, of clear_email_form demo_env] a c d s g
  show ?thesis by (auto simp: flags_le_def)
qed

end
